theory Spec2Isabelle
  imports Complex_Main "HOL-Library.AList"
begin

section \<open>Tables\<close>

text \<open>
  The dashboard is a script over pandas data frames. A cell of a frame is a missing value
  (pandas' NaN, NaT or None), a number, a string, or a timestamp. Numbers are rationals:
  the arithmetic of the script (a product by 100, a quotient, sums and a mean) is modelled
  exactly, without the rounding of binary floating point.

  A frame has its column labels in order, and its rows in order. A row is the list of its
  (label, cell) pairs, as \<open>DataFrame.to_dict('records')\<close> gives them, so that a cell
  is read by its label as the script does.
\<close>

datatype cell = NaN | Num rat | Str string | Time int

type_synonym row = "(string \<times> cell) list"

record frame =
  columns :: "string list"
  rows :: "row list"

text \<open>\<open>row[label]\<close>; a label the row does not have reads as missing.\<close>

definition cell_at :: "row \<Rightarrow> string \<Rightarrow> cell" where
  "cell_at r c = (case map_of r c of None \<Rightarrow> NaN | Some v \<Rightarrow> v)"

text \<open>\<open>df.empty\<close>: one of the two axes has length 0.\<close>

definition empty_frame :: "frame \<Rightarrow> bool" where
  "empty_frame df = (rows df = [] \<or> columns df = [])"

text \<open>\<open>df[mask]\<close>: the rows where the mask holds, in their order.\<close>

definition select_rows :: "(row \<Rightarrow> bool) \<Rightarrow> frame \<Rightarrow> frame" where
  "select_rows p df = df\<lparr>rows := filter p (rows df)\<rparr>"

text \<open>\<open>series.isin(values)\<close>, at one row.\<close>

definition isin :: "string \<Rightarrow> cell list \<Rightarrow> row \<Rightarrow> bool" where
  "isin c vals = (\<lambda>r. cell_at r c \<in> set vals)"

section \<open>Sidebar filters\<close>

text \<open>
  Lines 80 to 91. \<open>platform_filter\<close> and \<open>category_filter\<close> are the lists the two
  multiselect widgets return (the empty list when the column is absent, lines 54 and 66).
  A Python list is true exactly when it is not empty.
\<close>

definition filtered_influencers :: "frame \<Rightarrow> cell list \<Rightarrow> cell list \<Rightarrow> frame" where
  "filtered_influencers influencers platform_filter category_filter =
     (let f0 = influencers;
          f1 = (if platform_filter \<noteq> [] \<and> ''platform'' \<in> set (columns influencers)
                then select_rows (isin ''platform'' platform_filter) f0 else f0);
          f2 = (if category_filter \<noteq> [] \<and> ''category'' \<in> set (columns influencers)
                then select_rows (isin ''category'' category_filter) f1 else f1)
      in f2)"

section \<open>Exceptions\<close>

text \<open>
  The exceptions the script can meet. A computation that can raise returns
  \<open>Inl\<close> of the exception, or \<open>Inr\<close> of its value.
\<close>

datatype py_error = KeyError string | TypeError | ValueError | NameError string

definition and_then :: "py_error + 'a \<Rightarrow> ('a \<Rightarrow> py_error + 'b) \<Rightarrow> py_error + 'b" where
  "and_then m f = (case m of Inl e \<Rightarrow> Inl e | Inr x \<Rightarrow> f x)"

text \<open>An operation on a whole column raises when it raises at one of its cells.\<close>

fun collect :: "(py_error + 'a) list \<Rightarrow> py_error + 'a list" where
  "collect [] = Inr []"
| "collect (m # ms) =
     (case m of Inl e \<Rightarrow> Inl e
      | Inr v \<Rightarrow> (case collect ms of Inl e \<Rightarrow> Inl e | Inr vs \<Rightarrow> Inr (v # vs)))"

section \<open>Loading\<close>

text \<open>
  Lines 17 to 28. The files of the working directory are a function from a file name to
  what \<open>pd.read_csv\<close> does with it: it returns a frame, raises FileNotFoundError
  (whose \<open>filename\<close> is the path it was given), or raises another exception \<open>e\<close>,
  of which the script only reads \<open>str(e)\<close>.
\<close>

datatype read_result = Parsed frame | NotFound | Failed string

datatype load_exn = FileNotFoundError string | OtherException string

definition read_csv :: "(string \<Rightarrow> read_result) \<Rightarrow> string \<Rightarrow> load_exn + frame" where
  "read_csv files name =
     (case files name of
        Parsed df \<Rightarrow> Inr df
      | NotFound \<Rightarrow> Inl (FileNotFoundError name)
      | Failed msg \<Rightarrow> Inl (OtherException msg))"

type_synonym loaded =
  "frame option \<times> frame option \<times> frame option \<times> frame option \<times> string option"

definition load_failed :: "load_exn \<Rightarrow> loaded" where
  "load_failed e =
     (case e of
        FileNotFoundError filename \<Rightarrow>
          (None, None, None, None, Some (''File not found: '' @ filename))
      | OtherException msg \<Rightarrow>
          (None, None, None, None, Some (''Error loading data: '' @ msg)))"

definition load_data :: "(string \<Rightarrow> read_result) \<Rightarrow> loaded" where
  "load_data files =
     (case read_csv files ''influencers.csv'' of Inl e \<Rightarrow> load_failed e
      | Inr influencers \<Rightarrow>
     (case read_csv files ''posts.csv'' of Inl e \<Rightarrow> load_failed e
      | Inr posts \<Rightarrow>
     (case read_csv files ''tracking_data.csv'' of Inl e \<Rightarrow> load_failed e
      | Inr tracking \<Rightarrow>
     (case read_csv files ''payouts.csv'' of Inl e \<Rightarrow> load_failed e
      | Inr payouts \<Rightarrow>
          (Some influencers, Some posts, Some tracking, Some payouts, None)))))"


text \<open>
  The four reads in the order of the source, and the first of them that does not return
  a frame: the exception it raises is the one the handlers of lines 25 to 28 see.
\<close>

definition file_names :: "string list" where
  "file_names = [''influencers.csv'', ''posts.csv'', ''tracking_data.csv'', ''payouts.csv'']"

definition is_parsed :: "read_result \<Rightarrow> bool" where
  "is_parsed r = (case r of Parsed df \<Rightarrow> True | NotFound \<Rightarrow> False | Failed msg \<Rightarrow> False)"

definition first_failure :: "(string \<Rightarrow> read_result) \<Rightarrow> string option" where
  "first_failure files = find (\<lambda>name. \<not> is_parsed (files name)) file_names"

text \<open>
  Two working directories. In each, three files parse and one is malformed; pandas'
  tokenizer reports the line and the field counts, and not the file.
\<close>

definition one_row :: frame where
  "one_row = \<lparr>columns = [''influencer_id''], rows = [[(''influencer_id'', Num 1)]]\<rparr>"

definition files_bad_posts :: "string \<Rightarrow> read_result" where
  "files_bad_posts name =
     (if name = ''posts.csv''
      then Failed ''Error tokenizing data. C error: Expected 2 fields in line 3, saw 3''
      else Parsed one_row)"

definition files_bad_payouts :: "string \<Rightarrow> read_result" where
  "files_bad_payouts name =
     (if name = ''payouts.csv''
      then Failed ''Error tokenizing data. C error: Expected 2 fields in line 3, saw 3''
      else Parsed one_row)"

section \<open>Merging\<close>

text \<open>
  \<open>left.merge(right, on=key, how=..., suffixes=(sl, sr))\<close>. pandas raises KeyError
  when one side lacks the key column. A label other than the key that both sides have gets
  the side's suffix. The result has the left columns, then the right columns without the
  key. Each left row, in order, is paired with the right rows of the same key, in order
  (a missing key matches a missing key); a left row with no partner is kept once by a left
  merge, with every right-hand cell missing, and dropped by an inner merge.
\<close>

datatype how = Left | Inner

definition overlap :: "string \<Rightarrow> frame \<Rightarrow> frame \<Rightarrow> string list" where
  "overlap key left right = filter (\<lambda>c. c \<noteq> key \<and> c \<in> set (columns right)) (columns left)"

definition suffixed :: "string list \<Rightarrow> string \<Rightarrow> string \<Rightarrow> string" where
  "suffixed ov suffix = (\<lambda>c. if c \<in> set ov then c @ suffix else c)"

definition left_cells :: "string list \<Rightarrow> string \<Rightarrow> row \<Rightarrow> row" where
  "left_cells ov sl l = map (\<lambda>(c, v). (suffixed ov sl c, v)) l"

definition right_cells :: "string \<Rightarrow> string list \<Rightarrow> string \<Rightarrow> row \<Rightarrow> row" where
  "right_cells key ov sr r =
     map (\<lambda>(c, v). (suffixed ov sr c, v)) (filter (\<lambda>(c, v). c \<noteq> key) r)"

definition missing_cells :: "string \<Rightarrow> string list \<Rightarrow> string \<Rightarrow> frame \<Rightarrow> row" where
  "missing_cells key ov sr right =
     map (\<lambda>c. (suffixed ov sr c, NaN)) (filter (\<lambda>c. c \<noteq> key) (columns right))"

definition partners :: "string \<Rightarrow> frame \<Rightarrow> row \<Rightarrow> row list" where
  "partners key right l = filter (\<lambda>r. cell_at r key = cell_at l key) (rows right)"

definition joined_rows ::
  "how \<Rightarrow> string \<Rightarrow> string list \<Rightarrow> string \<times> string \<Rightarrow> frame \<Rightarrow> row \<Rightarrow> row list" where
  "joined_rows h key ov suffixes right l =
     (case partners key right l of
        [] \<Rightarrow> (case h of
                 Left \<Rightarrow> [left_cells ov (fst suffixes) l @ missing_cells key ov (snd suffixes) right]
               | Inner \<Rightarrow> [])
      | r # rs \<Rightarrow>
          map (\<lambda>r. left_cells ov (fst suffixes) l @ right_cells key ov (snd suffixes) r) (r # rs))"

definition merge :: "how \<Rightarrow> string \<Rightarrow> string \<times> string \<Rightarrow> frame \<Rightarrow> frame \<Rightarrow> py_error + frame" where
  "merge h key suffixes left right =
     (if key \<notin> set (columns left) \<or> key \<notin> set (columns right) then Inl (KeyError key)
      else let ov = overlap key left right in
        Inr \<lparr>columns = map (suffixed ov (fst suffixes)) (columns left)
                 @ map (suffixed ov (snd suffixes)) (filter (\<lambda>c. c \<noteq> key) (columns right)),
             rows = concat (map (joined_rows h key ov suffixes right) (rows left))\<rparr>)"

text \<open>Lines 147 to 159: the two left merges; the second only when \<open>posts\<close> is not empty.\<close>

definition merged :: "frame \<Rightarrow> frame \<Rightarrow> frame \<Rightarrow> py_error + frame" where
  "merged tracking influencers posts =
     and_then (merge Left ''influencer_id'' (''_x'', ''_y'') tracking influencers)
       (\<lambda>m. if \<not> empty_frame posts
            then merge Left ''influencer_id'' (''_tracking'', ''_post'') m posts
            else Inr m)"

text \<open>
  The cells of a joined row that come from the influencer table: they stand after the
  cells of the tracking row.
\<close>

definition influencer_side :: "frame \<Rightarrow> frame \<Rightarrow> row \<Rightarrow> row" where
  "influencer_side tracking influencers j =
     take (length (filter (\<lambda>c. c \<noteq> ''influencer_id'') (columns influencers)))
       (drop (length (columns tracking)) j)"

section \<open>Cost and ROAS\<close>

text \<open>
  \<open>df[c] = values\<close>: the column is replaced where it stands, or added as the last one.
\<close>

definition set_column :: "string \<Rightarrow> cell list \<Rightarrow> frame \<Rightarrow> frame" where
  "set_column c vals df =
     \<lparr>columns = (if c \<in> set (columns df) then columns df else columns df @ [c]),
      rows = map (\<lambda>(r, v). AList.update c v r) (zip (rows df) vals)\<rparr>"







section \<open>Date range\<close>

text \<open>
  Lines 69 to 78. \<open>pd.to_datetime(column, errors='coerce')\<close> turns a cell into a
  timestamp, here its nanoseconds since the epoch, or into the missing value NaT when it
  cannot be read. The reader of date strings is pandas' and is a parameter; a number is
  read as a count of nanoseconds.
\<close>

definition date_col :: "frame \<Rightarrow> string option" where
  "date_col tracking =
     (if ''date'' \<in> set (columns tracking) then Some ''date''
      else if ''campaign_date'' \<in> set (columns tracking) then Some ''campaign_date''
      else None)"

definition to_datetime :: "(string \<Rightarrow> int option) \<Rightarrow> cell \<Rightarrow> cell" where
  "to_datetime parse c =
     (case c of
        NaN \<Rightarrow> NaN
      | Num x \<Rightarrow> Time \<lfloor>x\<rfloor>
      | Str s \<Rightarrow> (case parse s of None \<Rightarrow> NaN | Some t \<Rightarrow> Time t)
      | Time t \<Rightarrow> Time t)"

text \<open>\<open>series.min()\<close> and \<open>series.max()\<close> of a column of timestamps skip NaT.\<close>

definition timestamps :: "cell list \<Rightarrow> int list" where
  "timestamps cs = concat (map (\<lambda>c. case c of Time t \<Rightarrow> [t] | _ \<Rightarrow> []) cs)"

definition series_min :: "cell list \<Rightarrow> cell" where
  "series_min cs = (case timestamps cs of [] \<Rightarrow> NaN | t # ts \<Rightarrow> Time (fold min ts t))"

definition series_max :: "cell list \<Rightarrow> cell" where
  "series_max cs = (case timestamps cs of [] \<Rightarrow> NaN | t # ts \<Rightarrow> Time (fold max ts t))"

text \<open>The arguments the date picker is built with.\<close>

record date_input =
  default_range :: "cell \<times> cell"
  min_value :: cell
  max_value :: cell

text \<open>
  Line 72 replaces the date column of \<open>tracking\<close>; lines 73 to 78 build the picker.
  Without a date column the table is left as it is and there is no picker.
\<close>

definition coerce_dates :: "(string \<Rightarrow> int option) \<Rightarrow> frame \<Rightarrow> frame" where
  "coerce_dates parse tracking =
     (case date_col tracking of
        None \<Rightarrow> tracking
      | Some c \<Rightarrow>
          set_column c (map (\<lambda>r. to_datetime parse (cell_at r c)) (rows tracking)) tracking)"

definition date_picker :: "(string \<Rightarrow> int option) \<Rightarrow> frame \<Rightarrow> date_input option" where
  "date_picker parse tracking =
     (case date_col tracking of
        None \<Rightarrow> None
      | Some c \<Rightarrow>
          (let dates = map (\<lambda>r. cell_at r c) (rows (coerce_dates parse tracking)) in
           Some \<lparr>default_range = (series_min dates, series_max dates),
                 min_value = series_min dates,
                 max_value = series_max dates\<rparr>))"

text \<open>
  Lines 42 to 91 as a whole: from the tables and from what the user selects in the three
  widgets, the tables that the rest of the script works with. The value \<open>date_range\<close>
  that the picker returns is assigned in line 73 and read nowhere.
\<close>

definition sidebar ::
  "(string \<Rightarrow> int option) \<Rightarrow> frame \<Rightarrow> frame \<Rightarrow> cell list \<Rightarrow> cell list \<Rightarrow> int \<times> int
     \<Rightarrow> frame \<times> frame" where
  "sidebar parse influencers tracking platform_filter category_filter date_range =
     (filtered_influencers influencers platform_filter category_filter,
      coerce_dates parse tracking)"

text \<open>Whether a cell is a timestamp within a selected range.\<close>

definition in_range :: "int \<times> int \<Rightarrow> cell \<Rightarrow> bool" where
  "in_range bounds c = (case c of Time t \<Rightarrow> fst bounds \<le> t \<and> t \<le> snd bounds | _ \<Rightarrow> False)"

section \<open>Grouping\<close>

text \<open>
  \<open>df.groupby(key).agg({...}).reset_index()\<close>. The groups are the distinct values
  of the key column that are not missing (\<open>dropna=True\<close>), in ascending order
  (\<open>sort=True\<close>). The cells of one column are of one kind, apart from the missing
  ones: numbers compare by value, strings as Python compares them, by code point.
\<close>

fun str_less :: "string \<Rightarrow> string \<Rightarrow> bool" where
  "str_less [] [] = False"
| "str_less [] (b # bs) = True"
| "str_less (a # as) [] = False"
| "str_less (a # as) (b # bs) =
     (if a = b then str_less as bs else (of_char a :: nat) < of_char b)"

fun cell_less :: "cell \<Rightarrow> cell \<Rightarrow> bool" where
  "cell_less (Num a) (Num b) = (a < b)"
| "cell_less (Str a) (Str b) = str_less a b"
| "cell_less (Time a) (Time b) = (a < b)"
| "cell_less _ _ = False"

fun insert_key :: "cell \<Rightarrow> cell list \<Rightarrow> cell list" where
  "insert_key k [] = [k]"
| "insert_key k (x # xs) = (if cell_less x k then x # insert_key k xs else k # x # xs)"

definition sorted_keys :: "cell list \<Rightarrow> cell list" where
  "sorted_keys ks = foldr insert_key ks []"

definition group_keys :: "string \<Rightarrow> frame \<Rightarrow> cell list" where
  "group_keys key df =
     sorted_keys (remdups (filter (\<lambda>k. k \<noteq> NaN) (map (\<lambda>r. cell_at r key) (rows df))))"

text \<open>
  The aggregations skip missing values. A sum adds the values that are left in their
  order, with Python's \<open>+\<close>: numbers add and strings concatenate; the sum of no value
  is 0. A mean is the sum of the numbers by their count; the mean of no value is missing.
\<close>

fun cell_add :: "cell \<Rightarrow> cell \<Rightarrow> py_error + cell" where
  "cell_add (Num a) (Num b) = Inr (Num (a + b))"
| "cell_add (Str a) (Str b) = Inr (Str (a @ b))"
| "cell_add _ _ = Inl TypeError"

fun add_all :: "cell \<Rightarrow> cell list \<Rightarrow> py_error + cell" where
  "add_all acc [] = Inr acc"
| "add_all acc (v # vs) = and_then (cell_add acc v) (\<lambda>s. add_all s vs)"

definition is_time :: "cell \<Rightarrow> bool" where
  "is_time c = (case c of Time t \<Rightarrow> True | _ \<Rightarrow> False)"

definition group_sum :: "cell list \<Rightarrow> py_error + cell" where
  "group_sum vs =
     (if list_ex is_time vs then Inl TypeError
      else case filter (\<lambda>v. v \<noteq> NaN) vs of
             [] \<Rightarrow> Inr (Num 0)
           | v # rest \<Rightarrow> add_all v rest)"

definition group_mean :: "cell list \<Rightarrow> py_error + cell" where
  "group_mean vs =
     (case filter (\<lambda>v. v \<noteq> NaN) vs of
        [] \<Rightarrow> Inr NaN
      | v # rest \<Rightarrow>
          (case add_all v rest of
             Inl e \<Rightarrow> Inl e
           | Inr (Num s) \<Rightarrow> Inr (Num (s / of_nat (length (v # rest))))
           | Inr _ \<Rightarrow> Inl TypeError))"

datatype agg = Mean | Sum

definition aggregate :: "agg \<Rightarrow> cell list \<Rightarrow> py_error + cell" where
  "aggregate a vs = (case a of Mean \<Rightarrow> group_mean vs | Sum \<Rightarrow> group_sum vs)"

definition group_row :: "string \<Rightarrow> (string \<times> agg) list \<Rightarrow> frame \<Rightarrow> cell \<Rightarrow> py_error + row" where
  "group_row key spec df k =
     (let members = filter (\<lambda>r. cell_at r key = k) (rows df) in
      and_then (collect (map (\<lambda>(c, a). aggregate a (map (\<lambda>r. cell_at r c) members)) spec))
        (\<lambda>vs. Inr ((key, k) # zip (map fst spec) vs)))"

definition groupby_agg :: "string \<Rightarrow> (string \<times> agg) list \<Rightarrow> frame \<Rightarrow> py_error + frame" where
  "groupby_agg key spec df =
     (if key \<notin> set (columns df) then Inl (KeyError key)
      else case filter (\<lambda>c. c \<notin> set (columns df)) (map fst spec) of
             c # cs \<Rightarrow> Inl (KeyError c)
           | [] \<Rightarrow>
               and_then (collect (map (group_row key spec df) (group_keys key df)))
                 (\<lambda>rs. Inr \<lparr>columns = key # map fst spec, rows = rs\<rparr>))"

section \<open>Selecting columns, sorting, truncating\<close>

text \<open>\<open>df[[c1, c2]]\<close>: KeyError when a label is not a column.\<close>

definition project :: "string list \<Rightarrow> frame \<Rightarrow> py_error + frame" where
  "project cs df =
     (case filter (\<lambda>c. c \<notin> set (columns df)) cs of
        c # rest \<Rightarrow> Inl (KeyError c)
      | [] \<Rightarrow> Inr \<lparr>columns = cs, rows = map (\<lambda>r. map (\<lambda>c. (c, cell_at r c)) cs) (rows df)\<rparr>)"

text \<open>
  \<open>df.sort_values(by=c, ascending=False)\<close>. The script leaves \<open>kind\<close> at its
  default, pandas' quicksort, which is numpy's sort routine and is not part of this
  repository. It is a parameter here: from the cells of the key column it gives the order
  in which the row positions are taken (pandas' indexer). Positions that are not row
  positions are ignored.
\<close>

type_synonym sorter = "cell list \<Rightarrow> nat list"

definition sort_values :: "sorter \<Rightarrow> string \<Rightarrow> frame \<Rightarrow> py_error + frame" where
  "sort_values argsort by df =
     (if by \<notin> set (columns df) then Inl (KeyError by)
      else Inr (df\<lparr>rows :=
                  map (\<lambda>i. rows df ! i)
                    (filter (\<lambda>i. i < length (rows df))
                       (argsort (map (\<lambda>r. cell_at r by) (rows df))))\<rparr>))"


section \<open>Campaign performance analysis\<close>

text \<open>
  What a section of the page shows: its views, a warning (\<open>st.warning\<close>), or the
  message of an exception that the section caught (\<open>st.error\<close>).
\<close>

datatype 'a shown = Shown 'a | Warning string | Error py_error

text \<open>
  Lines 180 to 181 and 223 to 224. The variable \<open>name_col\<close> is only assigned when the
  influencer table has one of the two columns.
\<close>

definition name_col :: "frame \<Rightarrow> string option" where
  "name_col influencers =
     (if ''username'' \<in> set (columns influencers) then Some ''username''
      else if ''name'' \<in> set (columns influencers) then Some ''name''
      else None)"

text \<open>
  Lines 180 to 185 and 223 to 229: the names are attached by a merge, inner by default for
  the ROAS summary, left for the revenue and orders summary.
\<close>

definition with_names :: "how \<Rightarrow> frame \<Rightarrow> frame \<Rightarrow> py_error + frame" where
  "with_names h influencers summary =
     (case name_col influencers of
        None \<Rightarrow> Inr summary
      | Some nc \<Rightarrow>
          and_then (project [''influencer_id'', nc] influencers)
            (merge h ''influencer_id'' (''_x'', ''_y'') summary))"







section \<open>Revenue and orders summary\<close>

text \<open>Lines 217 to 231.\<close>

definition campaign_summary :: "sorter \<Rightarrow> frame \<Rightarrow> frame \<Rightarrow> py_error + frame" where
  "campaign_summary argsort tracking influencers =
     and_then (groupby_agg ''influencer_id'' [(''orders'', Sum), (''revenue'', Sum)] tracking)
       (\<lambda>groups.
     and_then (with_names Left influencers groups)
       (sort_values argsort ''revenue''))"


section \<open>Payout tracking\<close>

text \<open>
  \<open>series.sum()\<close>: a missing value counts as 0, the values are added with Python's
  \<open>+\<close>, and the sum of no value is 0.
\<close>

definition series_sum :: "cell list \<Rightarrow> py_error + cell" where
  "series_sum vs =
     (if list_ex is_time vs then Inl TypeError
      else case map (\<lambda>v. if v = NaN then Num 0 else v) vs of
             [] \<Rightarrow> Inr (Num 0)
           | v # rest \<Rightarrow> add_all v rest)"

text \<open>
  Lines 281 and 282: \<open>payouts[payouts["status"] == s]["total_payout"].sum()\<close>.
  The comparison is Python's equality of the cell with the string.
\<close>

definition status_amount :: "string \<Rightarrow> frame \<Rightarrow> py_error + cell" where
  "status_amount s payouts =
     (if ''status'' \<notin> set (columns payouts) then Inl (KeyError ''status'')
      else if ''total_payout'' \<notin> set (columns payouts) then Inl (KeyError ''total_payout'')
      else series_sum (map (\<lambda>r. cell_at r ''total_payout'')
                         (filter (\<lambda>r. cell_at r ''status'' = Str s) (rows payouts))))"

definition pending_amount :: "frame \<Rightarrow> py_error + cell" where
  "pending_amount payouts = status_amount ''pending'' payouts"

definition paid_amount :: "frame \<Rightarrow> py_error + cell" where
  "paid_amount payouts = status_amount ''paid'' payouts"




text \<open>The number in a cell, 0 for a missing value; a cell of a numeric column is one of the two.\<close>

definition num_of :: "cell \<Rightarrow> rat" where
  "num_of c = (case c of Num x \<Rightarrow> x | _ \<Rightarrow> 0)"

definition is_numeric :: "cell \<Rightarrow> bool" where
  "is_numeric c = (case c of Num x \<Rightarrow> True | NaN \<Rightarrow> True | _ \<Rightarrow> False)"

definition numeric_column :: "string \<Rightarrow> frame \<Rightarrow> bool" where
  "numeric_column c df = list_all (\<lambda>r. is_numeric (cell_at r c)) (rows df)"

section \<open>The page\<close>



section \<open>A sorter\<close>

text \<open>
  One sorter that meets pandas' contract for \<open>ascending=False\<close>: insertion into
  descending order, missing values last, equal keys in their input order.
\<close>

definition goes_before :: "cell \<Rightarrow> cell \<Rightarrow> bool" where
  "goes_before a b = (a \<noteq> NaN \<and> (b = NaN \<or> cell_less b a))"

fun insert_pos :: "cell list \<Rightarrow> nat \<Rightarrow> nat list \<Rightarrow> nat list" where
  "insert_pos ks i [] = [i]"
| "insert_pos ks i (j # js) =
     (if goes_before (ks ! j) (ks ! i) then j # insert_pos ks i js else i # j # js)"

definition stable_argsort :: sorter where
  "stable_argsort ks = foldr (insert_pos ks) [0..<length ks] []"






section \<open>Example tables\<close>

text \<open>An influencer table of two rows, with the platform and category columns.\<close>

definition influencers_2 :: frame where
  "influencers_2 =
     \<lparr>columns = [''influencer_id'', ''name'', ''platform'', ''category''],
      rows =
        [[(''influencer_id'', Str ''inf1''), (''name'', Str ''Asha''),
          (''platform'', Str ''Instagram''), (''category'', Str ''Fitness'')],
         [(''influencer_id'', Str ''inf2''), (''name'', Str ''Ben''),
          (''platform'', Str ''YouTube''), (''category'', Str ''Nutrition'')]]\<rparr>"


text \<open>A tracking table whose second influencer is not in the influencer table.\<close>

definition tracking_unmatched :: frame where
  "tracking_unmatched =
     \<lparr>columns = [''influencer_id'', ''revenue'', ''orders''],
      rows =
        [[(''influencer_id'', Str ''inf1''), (''revenue'', Num 500), (''orders'', Num 5)],
         [(''influencer_id'', Str ''inf9''), (''revenue'', Num 200), (''orders'', Num 1)]]\<rparr>"

text \<open>Two posts of the first influencer; the label \<open>platform\<close> is also an influencer column.\<close>

definition posts_2 :: frame where
  "posts_2 =
     \<lparr>columns = [''post_id'', ''influencer_id'', ''platform''],
      rows =
        [[(''post_id'', Num 1), (''influencer_id'', Str ''inf1''), (''platform'', Str ''Instagram'')],
         [(''post_id'', Num 2), (''influencer_id'', Str ''inf1''), (''platform'', Str ''Instagram'')]]\<rparr>"


text \<open>The table the two merges give for them (lines 147 to 159).\<close>

definition merged_unmatched :: frame where
  "merged_unmatched =
     \<lparr>columns =
        [''influencer_id'', ''revenue'', ''orders'', ''name'', ''platform_tracking'',
         ''category'', ''post_id'', ''platform_post''],
      rows =
        [[(''influencer_id'', Str ''inf1''), (''revenue'', Num 500), (''orders'', Num 5),
          (''name'', Str ''Asha''), (''platform_tracking'', Str ''Instagram''),
          (''category'', Str ''Fitness''), (''post_id'', Num 1),
          (''platform_post'', Str ''Instagram'')],
         [(''influencer_id'', Str ''inf1''), (''revenue'', Num 500), (''orders'', Num 5),
          (''name'', Str ''Asha''), (''platform_tracking'', Str ''Instagram''),
          (''category'', Str ''Fitness''), (''post_id'', Num 2),
          (''platform_post'', Str ''Instagram'')],
         [(''influencer_id'', Str ''inf9''), (''revenue'', Num 200), (''orders'', Num 1),
          (''name'', NaN), (''platform_tracking'', NaN), (''category'', NaN),
          (''post_id'', NaN), (''platform_post'', NaN)]]\<rparr>"



text \<open>The payouts of the scenario of the specification.\<close>

definition payouts_3 :: frame where
  "payouts_3 =
     \<lparr>columns = [''influencer_id'', ''status'', ''total_payout''],
      rows =
        [[(''influencer_id'', Str ''inf1''), (''status'', Str ''pending''), (''total_payout'', Num 1000)],
         [(''influencer_id'', Str ''inf2''), (''status'', Str ''paid''), (''total_payout'', Num 2000)],
         [(''influencer_id'', Str ''inf3''), (''status'', Str ''Paid''), (''total_payout'', Num 500)]]\<rparr>"










text \<open>
  A tracking table with dates: one event in January 2024, one in June 2024 and one whose
  date cannot be read; a reader that knows the two dates; and the range from 1 January
  to 31 January 2024.
\<close>

definition tracking_dated :: frame where
  "tracking_dated =
     \<lparr>columns = [''influencer_id'', ''revenue'', ''orders'', ''date''],
      rows =
        [[(''influencer_id'', Str ''inf1''), (''revenue'', Num 500), (''orders'', Num 5),
          (''date'', Str ''2024-01-15'')],
         [(''influencer_id'', Str ''inf1''), (''revenue'', Num 300), (''orders'', Num 3),
          (''date'', Str ''2024-06-01'')],
         [(''influencer_id'', Str ''inf2''), (''revenue'', Num 100), (''orders'', Num 1),
          (''date'', Str ''soon'')]]\<rparr>"

definition parse_dated :: "string \<Rightarrow> int option" where
  "parse_dated s =
     (if s = ''2024-01-15'' then Some 1705276800000000000
      else if s = ''2024-06-01'' then Some 1717200000000000000
      else None)"

definition january :: "int \<times> int" where
  "january = (1704067200000000000, 1706659200000000000)"

section \<open>Properties of the sidebar filters\<close>

text \<open>
  C9. An empty selection for the platform column removes no row for that column: the
  result is the one the category filter alone gives; an empty selection for the category
  column leaves the result of the platform filter alone; with both selections empty the
  table is returned as it is.
\<close>

theorem empty_selection_no_filter:
  "filtered_influencers influencers [] category_filter =
     (if category_filter \<noteq> [] \<and> ''category'' \<in> set (columns influencers)
      then select_rows (isin ''category'' category_filter) influencers else influencers)
   \<and> filtered_influencers influencers platform_filter [] =
     (if platform_filter \<noteq> [] \<and> ''platform'' \<in> set (columns influencers)
      then select_rows (isin ''platform'' platform_filter) influencers else influencers)
   \<and> filtered_influencers influencers [] [] = influencers
   \<and> length (rows (filtered_influencers influencers [] [])) = length (rows influencers)"
  by (simp add: filtered_influencers_def)

section \<open>Properties of the loader\<close>

text \<open>
  C8, as the code has it. The loader returns either the four tables and no error, when
  all four files parse, or no table and one message, decided by the first read that
  fails: \<open>File not found: \<close> followed by the name of the file when the file is
  missing, and \<open>Error loading data: \<close> followed by the text of the exception
  otherwise. The file name is not added to that text.
\<close>

theorem load_data_all_or_nothing:
  "(case first_failure files of
      None \<Rightarrow>
        (\<exists>i p t y. files ''influencers.csv'' = Parsed i \<and> files ''posts.csv'' = Parsed p
           \<and> files ''tracking_data.csv'' = Parsed t \<and> files ''payouts.csv'' = Parsed y
           \<and> load_data files = (Some i, Some p, Some t, Some y, None))
    | Some name \<Rightarrow>
        load_data files =
          (None, None, None, None,
           Some (case files name of
                   NotFound \<Rightarrow> ''File not found: '' @ name
                 | Failed msg \<Rightarrow> ''Error loading data: '' @ msg
                 | Parsed df \<Rightarrow> [])))"
  unfolding first_failure_def file_names_def load_data_def read_csv_def load_failed_def is_parsed_def
  by (cases "files ''influencers.csv''"; cases "files ''posts.csv''";
      cases "files ''tracking_data.csv''"; cases "files ''payouts.csv''"; simp)

text \<open>
  C8 as stated fails: a malformed \<open>posts.csv\<close> and a malformed \<open>payouts.csv\<close>
  give the same message, which names neither file.
\<close>

theorem parse_error_has_no_file_name:
  "load_data files_bad_posts =
     (None, None, None, None,
      Some ''Error loading data: Error tokenizing data. C error: Expected 2 fields in line 3, saw 3'')
   \<and> load_data files_bad_payouts = load_data files_bad_posts"
  by (simp add: load_data_def read_csv_def load_failed_def files_bad_posts_def files_bad_payouts_def)

text \<open>
  C2, as the code has it. When the table has the platform and category columns, the
  filtered table keeps the columns, its rows are rows of the full table, and they are
  exactly the rows that pass each column's test, in their order: the platform value is in
  the selected platforms or no platform is selected, and the category value is in the
  selected categories or no category is selected.
\<close>

theorem filtered_influencers_exact:
  assumes "''platform'' \<in> set (columns influencers)"
    and "''category'' \<in> set (columns influencers)"
  shows "set (rows (filtered_influencers influencers platform_filter category_filter))
           \<subseteq> set (rows influencers)
     \<and> rows (filtered_influencers influencers platform_filter category_filter) =
         filter (\<lambda>r. (platform_filter = [] \<or> cell_at r ''platform'' \<in> set platform_filter)
                   \<and> (category_filter = [] \<or> cell_at r ''category'' \<in> set category_filter))
           (rows influencers)
     \<and> columns (filtered_influencers influencers platform_filter category_filter) =
         columns influencers"
  using assms by (auto simp: filtered_influencers_def select_rows_def isin_def Let_def)

theorem filtered_influencers_exact_witness:
  "''platform'' \<in> set (columns influencers_2) \<and> ''category'' \<in> set (columns influencers_2)
   \<and> rows (filtered_influencers influencers_2 [Str ''YouTube''] [Str ''Nutrition'', Str ''Fitness'']) =
       [[(''influencer_id'', Str ''inf2''), (''name'', Str ''Ben''),
         (''platform'', Str ''YouTube''), (''category'', Str ''Nutrition'')]]
   \<and> rows (filtered_influencers influencers_2 [] [Str ''Fitness'']) =
       [[(''influencer_id'', Str ''inf1''), (''name'', Str ''Asha''),
         (''platform'', Str ''Instagram''), (''category'', Str ''Fitness'')]]"
proof -
  have p: "''platform'' \<in> set (columns influencers_2)"
    and c: "''category'' \<in> set (columns influencers_2)"
    by (simp_all add: influencers_2_def)
  from filtered_influencers_exact [OF p c, of "[Str ''YouTube'']" "[Str ''Nutrition'', Str ''Fitness'']"]
    filtered_influencers_exact [OF p c, of "[]" "[Str ''Fitness'']"]
  show ?thesis
    using p c by (simp add: influencers_2_def cell_at_def)
qed

text \<open>
  C2 as stated fails when a selection is empty: no platform is in the empty selection, yet
  the row of category Fitness is kept.
\<close>

theorem empty_platform_selection_keeps_rows:
  "rows (filtered_influencers influencers_2 [] [Str ''Fitness'']) \<noteq>
     filter (\<lambda>r. cell_at r ''platform'' \<in> set [] \<and> cell_at r ''category'' \<in> set [Str ''Fitness''])
       (rows influencers_2)"
  by (simp add: filtered_influencers_def select_rows_def isin_def influencers_2_def cell_at_def)

section \<open>Properties of the merges\<close>

lemma and_then_Inr: "and_then m f = Inr y \<longleftrightarrow> (\<exists>x. m = Inr x \<and> f x = Inr y)"
  by (cases m) (simp_all add: and_then_def)

lemma merge_Inr:
  "merge h key sfx l r = Inr m \<Longrightarrow>
     key \<in> set (columns l) \<and> key \<in> set (columns r)
     \<and> rows m = concat (map (joined_rows h key (overlap key l r) sfx r) (rows l))
     \<and> columns m = map (suffixed (overlap key l r) (fst sfx)) (columns l)
                 @ map (suffixed (overlap key l r) (snd sfx)) (filter (\<lambda>c. c \<noteq> key) (columns r))"
  by (auto simp: merge_def Let_def split: if_splits)

lemma joined_rows_Left_nonempty: "joined_rows Left key ov sfx right l \<noteq> []"
  by (simp add: joined_rows_def split: list.splits)

lemma length_concat_ge:
  "(\<And>x. x \<in> set xs \<Longrightarrow> f x \<noteq> []) \<Longrightarrow> length xs \<le> length (concat (map f xs))"
proof (induction xs)
  case Nil
  then show ?case by simp
next
  case (Cons x xs)
  have "f x \<noteq> []" using Cons.prems by simp
  then have "1 \<le> length (f x)" by (cases "f x") simp_all
  moreover have "length xs \<le> length (concat (map f xs))" using Cons by simp
  ultimately show ?case by simp
qed

lemma merge_Left_length:
  "merge Left key sfx l r = Inr m \<Longrightarrow> length (rows l) \<le> length (rows m)"
proof -
  assume "merge Left key sfx l r = Inr m"
  then have "rows m = concat (map (joined_rows Left key (overlap key l r) sfx r) (rows l))"
    by (simp add: merge_Inr)
  then show ?thesis
    by (simp add: length_concat_ge joined_rows_Left_nonempty)
qed

lemma partners_Nil: "partners key right l = [] \<longleftrightarrow> cell_at l key \<notin> (\<lambda>r. cell_at r key) ` set (rows right)"
proof -
  have "partners key right l = [] \<longleftrightarrow> (\<forall>r \<in> set (rows right). cell_at r key \<noteq> cell_at l key)"
    by (simp add: partners_def filter_empty_conv)
  also have "\<dots> \<longleftrightarrow> cell_at l key \<notin> (\<lambda>r. cell_at r key) ` set (rows right)"
    by (auto simp: image_iff)
  finally show ?thesis .
qed

lemma joined_rows_shape:
  assumes "j \<in> set (joined_rows h key ov sfx right l)"
  shows "\<exists>tail. j = left_cells ov (fst sfx) l @ tail
           \<and> (partners key right l = [] \<longrightarrow>
                h = Left \<and> tail = missing_cells key ov (snd sfx) right)
           \<and> (\<forall>c. c \<in> fst ` set tail \<longrightarrow> (\<exists>c'. c' \<noteq> key \<and> c = suffixed ov (snd sfx) c'))"
proof (cases "partners key right l")
  case Nil
  with assms show ?thesis
    by (cases h) (auto simp: joined_rows_def missing_cells_def image_iff)
next
  case (Cons r rs)
  with assms show ?thesis
    by (auto simp: joined_rows_def right_cells_def image_iff)
qed

lemma map_of_left_cells:
  assumes "key \<notin> set ov" and "\<forall>c \<in> set ov. c @ sl \<noteq> key"
  shows "map_of (left_cells ov sl l) key = map_of l key"
proof (induction l)
  case Nil
  then show ?case by (simp add: left_cells_def)
next
  case (Cons p l)
  obtain c v where p: "p = (c, v)" by (cases p)
  have "key = suffixed ov sl c \<longleftrightarrow> key = c"
    using assms by (auto simp: suffixed_def)
  moreover have "map_of (left_cells ov sl l) key = map_of l key"
    using Cons by simp
  ultimately show ?case by (simp add: left_cells_def p)
qed

lemma map_of_tail_None:
  assumes "key \<notin> set ov" and "\<forall>c \<in> set ov. c @ sr \<noteq> key"
    and "\<forall>c. c \<in> fst ` set tail \<longrightarrow> (\<exists>c'. c' \<noteq> key \<and> c = suffixed ov sr c')"
  shows "map_of tail key = None"
proof -
  have "key \<notin> fst ` set tail"
  proof
    assume "key \<in> fst ` set tail"
    then obtain c' where "c' \<noteq> key" "key = suffixed ov sr c'" using assms(3) by blast
    then show False using assms(1,2) by (auto simp: suffixed_def split: if_splits)
  qed
  then show ?thesis by (simp add: map_of_eq_None_iff)
qed

lemma cell_at_joined:
  assumes "j \<in> set (joined_rows h key ov sfx right l)"
    and "key \<notin> set ov" and "\<forall>c \<in> set ov. c @ fst sfx \<noteq> key" and "\<forall>c \<in> set ov. c @ snd sfx \<noteq> key"
  shows "cell_at j key = cell_at l key"
proof -
  from joined_rows_shape [OF assms(1)] obtain tail where
    j: "j = left_cells ov (fst sfx) l @ tail"
    and t: "\<forall>c. c \<in> fst ` set tail \<longrightarrow> (\<exists>c'. c' \<noteq> key \<and> c = suffixed ov (snd sfx) c')"
    by blast
  have "map_of tail key = None" using map_of_tail_None [OF assms(2) assms(4) t] .
  then have "map_of j key = map_of l key"
    using map_of_left_cells [OF assms(2) assms(3), of l]
    by (simp add: j map_add_def split: option.splits)
  then show ?thesis by (simp add: cell_at_def)
qed


lemma suffix_not_key:
  "c @ ''_x'' \<noteq> ''influencer_id''" "c @ ''_y'' \<noteq> ''influencer_id''"
  "c @ ''_tracking'' \<noteq> ''influencer_id''" "c @ ''_post'' \<noteq> ''influencer_id''"
proof -
  have "last (c @ ''_x'') \<noteq> last ''influencer_id''" "last (c @ ''_y'') \<noteq> last ''influencer_id''"
    "last (c @ ''_tracking'') \<noteq> last ''influencer_id''" "last (c @ ''_post'') \<noteq> last ''influencer_id''"
    by simp_all
  then show "c @ ''_x'' \<noteq> ''influencer_id''" "c @ ''_y'' \<noteq> ''influencer_id''"
    "c @ ''_tracking'' \<noteq> ''influencer_id''" "c @ ''_post'' \<noteq> ''influencer_id''"
    by metis+
qed

lemma key_not_overlap: "key \<notin> set (overlap key l r)"
  by (simp add: overlap_def)

lemma length_left_cells: "length (left_cells ov sl l) = length l"
  by (simp add: left_cells_def)

lemma map_snd_left_cells: "map snd (left_cells ov sl l) = map snd l"
  by (simp add: left_cells_def case_prod_unfold)

lemma map_snd_missing_cells:
  "map snd (missing_cells key ov sr right) =
     replicate (length (filter (\<lambda>c. c \<noteq> key) (columns right))) NaN"
  by (simp add: missing_cells_def map_replicate_const o_def)

lemma first_merge_row:
  assumes m: "merge Left ''influencer_id'' (''_x'', ''_y'') tracking influencers = Inr m1"
    and j: "j \<in> set (rows m1)"
  shows "\<exists>t \<in> set (rows tracking).
           cell_at j ''influencer_id'' = cell_at t ''influencer_id''
           \<and> length t \<le> length j
           \<and> (cell_at t ''influencer_id'' \<notin> (\<lambda>i. cell_at i ''influencer_id'') ` set (rows influencers) \<longrightarrow>
                map snd (drop (length t) j) =
                  replicate (length (filter (\<lambda>c. c \<noteq> ''influencer_id'') (columns influencers))) NaN)"
proof -
  let ?ov = "overlap ''influencer_id'' tracking influencers"
  from merge_Inr [OF m] j obtain t where t: "t \<in> set (rows tracking)"
    and jt: "j \<in> set (joined_rows Left ''influencer_id'' ?ov (''_x'', ''_y'') influencers t)"
    by auto
  have k: "cell_at j ''influencer_id'' = cell_at t ''influencer_id''"
    by (rule cell_at_joined [OF jt key_not_overlap]) (simp_all add: suffix_not_key)
  from joined_rows_shape [OF jt] obtain tail where
    shape: "j = left_cells ?ov ''_x'' t @ tail"
    and un: "partners ''influencer_id'' influencers t = [] \<longrightarrow>
               tail = missing_cells ''influencer_id'' ?ov ''_y'' influencers"
    by auto
  have "length t \<le> length j" by (simp add: shape length_left_cells)
  moreover have "map snd (drop (length t) j) =
      replicate (length (filter (\<lambda>c. c \<noteq> ''influencer_id'') (columns influencers))) NaN"
    if "cell_at t ''influencer_id'' \<notin> (\<lambda>i. cell_at i ''influencer_id'') ` set (rows influencers)"
  proof -
    from that have "partners ''influencer_id'' influencers t = []" by (simp add: partners_Nil)
    with un have "tail = missing_cells ''influencer_id'' ?ov ''_y'' influencers" by simp
    then show ?thesis by (simp add: shape length_left_cells map_snd_missing_cells)
  qed
  ultimately show ?thesis using t k by blast
qed

lemma second_merge_row:
  assumes m: "merge Left ''influencer_id'' (''_tracking'', ''_post'') m1 posts = Inr m"
    and j: "j \<in> set (rows m)"
  shows "\<exists>j1 \<in> set (rows m1). \<exists>tail.
           cell_at j ''influencer_id'' = cell_at j1 ''influencer_id''
           \<and> map snd j = map snd j1 @ tail"
proof -
  let ?ov = "overlap ''influencer_id'' m1 posts"
  from merge_Inr [OF m] j obtain j1 where j1: "j1 \<in> set (rows m1)"
    and jt: "j \<in> set (joined_rows Left ''influencer_id'' ?ov (''_tracking'', ''_post'') posts j1)"
    by auto
  have k: "cell_at j ''influencer_id'' = cell_at j1 ''influencer_id''"
    by (rule cell_at_joined [OF jt key_not_overlap]) (simp_all add: suffix_not_key)
  from joined_rows_shape [OF jt] obtain tail where
    "j = left_cells ?ov ''_tracking'' j1 @ tail" by auto
  then have "map snd j = map snd j1 @ map snd tail" by (simp add: map_snd_left_cells)
  with j1 k show ?thesis by blast
qed

text \<open>
  C4. When the merges of lines 147 to 159 succeed, the joined table has at least as many
  rows as the tracking table, and in every joined row whose \<open>influencer_id\<close> is
  the \<open>influencer_id\<close> of no influencer row, every cell that comes from the
  influencer table is missing. (The rows of the tracking table have one cell for each of
  its columns, as the rows of a frame do.)
\<close>

theorem left_join_keeps_tracking_rows:
  assumes m: "merged tracking influencers posts = Inr m"
    and wf: "\<forall>t \<in> set (rows tracking). length t = length (columns tracking)"
  shows "length (rows tracking) \<le> length (rows m)
     \<and> (\<forall>j \<in> set (rows m).
          cell_at j ''influencer_id'' \<notin> (\<lambda>i. cell_at i ''influencer_id'') ` set (rows influencers) \<longrightarrow>
          map snd (influencer_side tracking influencers j) =
            replicate (length (filter (\<lambda>c. c \<noteq> ''influencer_id'') (columns influencers))) NaN)"
proof -
  let ?n = "length (filter (\<lambda>c. c \<noteq> ''influencer_id'') (columns influencers))"
  let ?keys = "(\<lambda>i. cell_at i ''influencer_id'') ` set (rows influencers)"
  from m obtain m1 where
    m1: "merge Left ''influencer_id'' (''_x'', ''_y'') tracking influencers = Inr m1"
    and m2: "(if \<not> empty_frame posts
              then merge Left ''influencer_id'' (''_tracking'', ''_post'') m1 posts
              else Inr m1) = Inr m"
    by (auto simp: merged_def and_then_Inr)
  have len1: "length (rows tracking) \<le> length (rows m1)"
    using merge_Left_length [OF m1] .
  have first: "map snd (take ?n (drop (length (columns tracking)) j)) = replicate ?n NaN"
    if "j \<in> set (rows m1)" "cell_at j ''influencer_id'' \<notin> ?keys" for j
  proof -
    from first_merge_row [OF m1 that(1)] that(2) obtain t where
      t: "t \<in> set (rows tracking)"
      and r: "map snd (drop (length t) j) = replicate ?n NaN"
      by auto
    from wf t have "length t = length (columns tracking)" by simp
    with r have "map snd (drop (length (columns tracking)) j) = replicate ?n NaN" by simp
    then have "take ?n (map snd (drop (length (columns tracking)) j)) = replicate ?n NaN"
      by simp
    then show ?thesis by (simp add: take_map)
  qed
  show ?thesis
  proof (cases "empty_frame posts")
    case True
    with m2 have "m = m1" by simp
    with len1 first show ?thesis by (simp add: influencer_side_def)
  next
    case False
    with m2 have mm: "merge Left ''influencer_id'' (''_tracking'', ''_post'') m1 posts = Inr m"
      by simp
    have len2: "length (rows m1) \<le> length (rows m)" using merge_Left_length [OF mm] .
    have "map snd (influencer_side tracking influencers j) = replicate ?n NaN"
      if j: "j \<in> set (rows m)" and k: "cell_at j ''influencer_id'' \<notin> ?keys" for j
    proof -
      from second_merge_row [OF mm j] obtain j1 tail where
        j1: "j1 \<in> set (rows m1)"
        and kk: "cell_at j ''influencer_id'' = cell_at j1 ''influencer_id''"
        and sh: "map snd j = map snd j1 @ tail"
        by blast
      from first [OF j1] k kk
      have f: "map snd (take ?n (drop (length (columns tracking)) j1)) = replicate ?n NaN"
        by simp
      then have l: "length (take ?n (drop (length (columns tracking)) j1)) = ?n"
        by (metis length_map length_replicate)
      then have "?n \<le> length j1 - length (columns tracking)" by simp
      then have "take ?n (drop (length (columns tracking)) (map snd j1 @ tail)) =
          take ?n (drop (length (columns tracking)) (map snd j1))"
        by simp
      with sh have "take ?n (drop (length (columns tracking)) (map snd j)) =
          take ?n (drop (length (columns tracking)) (map snd j1))"
        by simp
      then have "map snd (take ?n (drop (length (columns tracking)) j)) =
          map snd (take ?n (drop (length (columns tracking)) j1))"
        by (simp add: take_map drop_map)
      with f show ?thesis by (simp add: influencer_side_def)
    qed
    with len1 len2 show ?thesis by auto
  qed
qed


lemma merged_unmatched_eval:
  "merged tracking_unmatched influencers_2 posts_2 = Inr merged_unmatched"
  by code_simp

theorem left_join_keeps_tracking_rows_witness:
  "merged tracking_unmatched influencers_2 posts_2 = Inr merged_unmatched
   \<and> length (rows tracking_unmatched) = 2 \<and> length (rows merged_unmatched) = 3
   \<and> length (rows tracking_unmatched) \<le> length (rows merged_unmatched)
   \<and> cell_at (rows merged_unmatched ! 2) ''influencer_id'' = Str ''inf9''
   \<and> map snd (influencer_side tracking_unmatched influencers_2 (rows merged_unmatched ! 2)) =
       [NaN, NaN, NaN]"
proof -
  have wf: "\<forall>t \<in> set (rows tracking_unmatched). length t = length (columns tracking_unmatched)"
    by (simp add: tracking_unmatched_def)
  have j: "rows merged_unmatched ! 2 \<in> set (rows merged_unmatched)"
    by (simp add: merged_unmatched_def)
  have k: "cell_at (rows merged_unmatched ! 2) ''influencer_id''
      \<notin> (\<lambda>i. cell_at i ''influencer_id'') ` set (rows influencers_2)"
    by (simp add: merged_unmatched_def influencers_2_def cell_at_def)
  from left_join_keeps_tracking_rows [OF merged_unmatched_eval wf] j k
  have "length (rows tracking_unmatched) \<le> length (rows merged_unmatched)"
    and "map snd (influencer_side tracking_unmatched influencers_2 (rows merged_unmatched ! 2)) =
      replicate (length (filter (\<lambda>c. c \<noteq> ''influencer_id'') (columns influencers_2))) NaN"
    by blast+
  then show ?thesis
    using merged_unmatched_eval
    by (simp add: influencers_2_def tracking_unmatched_def merged_unmatched_def cell_at_def
        numeral_3_eq_3)
qed

section \<open>Properties of the cost and ROAS columns\<close>












section \<open>Properties of the payout amounts\<close>

lemma add_all_numeric:
  "list_all is_numeric vs \<Longrightarrow>
     add_all (Num a) (map (\<lambda>v. if v = NaN then Num 0 else v) vs) =
       Inr (Num (a + sum_list (map num_of vs)))"
proof (induction vs arbitrary: a)
  case Nil
  then show ?case by simp
next
  case (Cons v vs)
  then show ?case
    by (cases v) (simp_all add: is_numeric_def num_of_def and_then_def add.assoc)
qed

lemma numeric_not_time: "list_all is_numeric vs \<Longrightarrow> \<not> list_ex is_time vs"
  by (induction vs) (auto simp: is_numeric_def is_time_def split: cell.splits)

lemma series_sum_numeric:
  assumes "list_all is_numeric vs"
  shows "series_sum vs = Inr (Num (sum_list (map num_of vs)))"
proof (cases vs)
  case Nil
  then show ?thesis by (simp add: series_sum_def)
next
  case (Cons v rest)
  with assms have r: "list_all is_numeric rest" and v: "is_numeric v" by simp_all
  have t: "\<not> list_ex is_time vs" using assms by (rule numeric_not_time)
  from v add_all_numeric [OF r] show ?thesis
    using t by (cases v) (simp_all add: series_sum_def Cons is_numeric_def num_of_def)
qed

lemma status_amount_numeric:
  assumes "''status'' \<in> set (columns payouts)" "''total_payout'' \<in> set (columns payouts)"
    and "numeric_column ''total_payout'' payouts"
  shows "status_amount s payouts =
     Inr (Num (sum_list (map (\<lambda>r. num_of (cell_at r ''total_payout''))
                 (filter (\<lambda>r. cell_at r ''status'' = Str s) (rows payouts)))))"
proof -
  have "list_all is_numeric (map (\<lambda>r. cell_at r ''total_payout'')
      (filter (\<lambda>r. cell_at r ''status'' = Str s) (rows payouts)))"
    using assms(3) by (simp add: numeric_column_def list_all_iff)
  from series_sum_numeric [OF this] show ?thesis
    using assms(1,2) by (simp add: status_amount_def o_def)
qed

lemma status_amount_select:
  assumes "\<And>r. cell_at r ''status'' = Str s \<Longrightarrow> p r"
  shows "status_amount s (select_rows p payouts) = status_amount s payouts"
proof -
  have "filter (\<lambda>r. cell_at r ''status'' = Str s) (filter p (rows payouts)) =
      filter (\<lambda>r. cell_at r ''status'' = Str s) (rows payouts)"
    using assms by (auto intro: filter_cong simp: )
  then show ?thesis by (simp add: status_amount_def select_rows_def)
qed

text \<open>
  C6. For a payout table with the status and total_payout columns, whose payouts are
  numbers or missing, the pending amount is the sum of the payouts of the rows whose
  status is the string \<open>pending\<close>, and the paid amount the sum over the rows whose
  status is the string \<open>paid\<close>; the comparison is exact, so the rows of any other
  status count in neither sum: without them both sums are the same. For the payouts of
  the scenario the pending amount is 1000 and the paid amount 2000.
\<close>

theorem payout_status_sums:
  "(\<forall>payouts. ''status'' \<in> set (columns payouts) \<and> ''total_payout'' \<in> set (columns payouts)
       \<and> numeric_column ''total_payout'' payouts \<longrightarrow>
       pending_amount payouts =
         Inr (Num (sum_list (map (\<lambda>r. num_of (cell_at r ''total_payout''))
                     (filter (\<lambda>r. cell_at r ''status'' = Str ''pending'') (rows payouts)))))
     \<and> paid_amount payouts =
         Inr (Num (sum_list (map (\<lambda>r. num_of (cell_at r ''total_payout''))
                     (filter (\<lambda>r. cell_at r ''status'' = Str ''paid'') (rows payouts)))))
     \<and> pending_amount
           (select_rows (\<lambda>r. cell_at r ''status'' = Str ''pending'' \<or> cell_at r ''status'' = Str ''paid'')
              payouts) = pending_amount payouts
     \<and> paid_amount
           (select_rows (\<lambda>r. cell_at r ''status'' = Str ''pending'' \<or> cell_at r ''status'' = Str ''paid'')
              payouts) = paid_amount payouts)
   \<and> pending_amount payouts_3 = Inr (Num 1000)
   \<and> paid_amount payouts_3 = Inr (Num 2000)"
proof (intro conjI allI impI)
  fix payouts
  assume h: "''status'' \<in> set (columns payouts) \<and> ''total_payout'' \<in> set (columns payouts)
       \<and> numeric_column ''total_payout'' payouts"
  then show "pending_amount payouts =
         Inr (Num (sum_list (map (\<lambda>r. num_of (cell_at r ''total_payout''))
                     (filter (\<lambda>r. cell_at r ''status'' = Str ''pending'') (rows payouts)))))"
    by (simp add: pending_amount_def status_amount_numeric)
  from h show "paid_amount payouts =
         Inr (Num (sum_list (map (\<lambda>r. num_of (cell_at r ''total_payout''))
                     (filter (\<lambda>r. cell_at r ''status'' = Str ''paid'') (rows payouts)))))"
    by (simp add: paid_amount_def status_amount_numeric)
  show "pending_amount
           (select_rows (\<lambda>r. cell_at r ''status'' = Str ''pending'' \<or> cell_at r ''status'' = Str ''paid'')
              payouts) = pending_amount payouts"
    unfolding pending_amount_def by (rule status_amount_select) simp
  show "paid_amount
           (select_rows (\<lambda>r. cell_at r ''status'' = Str ''pending'' \<or> cell_at r ''status'' = Str ''paid'')
              payouts) = paid_amount payouts"
    unfolding paid_amount_def by (rule status_amount_select) simp
next
  show "pending_amount payouts_3 = Inr (Num 1000)" by code_simp
  show "paid_amount payouts_3 = Inr (Num 2000)" by code_simp
qed

theorem payout_status_sums_witness:
  "''status'' \<in> set (columns payouts_3) \<and> ''total_payout'' \<in> set (columns payouts_3)
   \<and> numeric_column ''total_payout'' payouts_3
   \<and> sum_list (map (\<lambda>r. num_of (cell_at r ''total_payout''))
        (filter (\<lambda>r. cell_at r ''status'' = Str ''pending'') (rows payouts_3))) = 1000
   \<and> sum_list (map (\<lambda>r. num_of (cell_at r ''total_payout''))
        (filter (\<lambda>r. cell_at r ''status'' = Str ''paid'') (rows payouts_3))) = 2000
   \<and> pending_amount
        (select_rows (\<lambda>r. cell_at r ''status'' = Str ''pending'' \<or> cell_at r ''status'' = Str ''paid'')
           payouts_3) = Inr (Num 1000)
   \<and> paid_amount
        (select_rows (\<lambda>r. cell_at r ''status'' = Str ''pending'' \<or> cell_at r ''status'' = Str ''paid'')
           payouts_3) = Inr (Num 2000)"
proof -
  have h: "''status'' \<in> set (columns payouts_3) \<and> ''total_payout'' \<in> set (columns payouts_3)
       \<and> numeric_column ''total_payout'' payouts_3"
    by (simp add: payouts_3_def numeric_column_def is_numeric_def cell_at_def)
  note g = payout_status_sums [THEN conjunct1, THEN spec, THEN mp, OF h]
  note s = payout_status_sums [THEN conjunct2]
  from g s have "Inr (Num (sum_list (map (\<lambda>r. num_of (cell_at r ''total_payout''))
        (filter (\<lambda>r. cell_at r ''status'' = Str ''pending'') (rows payouts_3))))) =
        (Inr (Num 1000) :: py_error + cell)"
    and "Inr (Num (sum_list (map (\<lambda>r. num_of (cell_at r ''total_payout''))
        (filter (\<lambda>r. cell_at r ''status'' = Str ''paid'') (rows payouts_3))))) =
        (Inr (Num 2000) :: py_error + cell)"
    by simp_all
  then show ?thesis using h g s by simp
qed

section \<open>Properties of the two summaries\<close>


























section \<open>Properties of the sections when data is missing\<close>
















section \<open>Properties of the order of the ROAS summary\<close>



















section \<open>Properties of the date range\<close>

text \<open>
  C3. The date column is read with unreadable values turned into the missing value, and
  the picker is bounded by the least and the greatest date read. The selected range,
  however, reaches no table: the tables after the sidebar are the same for every selected
  range. With January 2024 selected, the tracking table still holds the event of 1 June
  2024 and the event whose date is unreadable, and the revenue and orders summary counts
  the revenue of the June event (500 + 300 for \<open>inf1\<close>).
\<close>

theorem date_range_not_applied:
  "sidebar parse influencers tracking platform_filter category_filter date_range =
     sidebar parse influencers tracking platform_filter category_filter other_range
   \<and> date_picker parse_dated tracking_dated =
       Some \<lparr>default_range = (Time 1705276800000000000, Time 1717200000000000000),
             min_value = Time 1705276800000000000,
             max_value = Time 1717200000000000000\<rparr>
   \<and> map (\<lambda>r. cell_at r ''date'')
         (rows (snd (sidebar parse_dated influencers_2 tracking_dated [] [] january))) =
       [Time 1705276800000000000, Time 1717200000000000000, NaN]
   \<and> map (\<lambda>r. in_range january (cell_at r ''date''))
         (rows (snd (sidebar parse_dated influencers_2 tracking_dated [] [] january))) =
       [True, False, False]
   \<and> and_then
         (campaign_summary stable_argsort
            (snd (sidebar parse_dated influencers_2 tracking_dated [] [] january)) influencers_2)
         (\<lambda>s. Inr (map (\<lambda>r. (cell_at r ''influencer_id'', cell_at r ''revenue'')) (rows s))) =
       Inr [(Str ''inf1'', Num 800), (Str ''inf2'', Num 100)]"
proof (intro conjI)
  show "sidebar parse influencers tracking platform_filter category_filter date_range =
     sidebar parse influencers tracking platform_filter category_filter other_range"
    by (simp add: sidebar_def)
  show "date_picker parse_dated tracking_dated =
       Some \<lparr>default_range = (Time 1705276800000000000, Time 1717200000000000000),
             min_value = Time 1705276800000000000,
             max_value = Time 1717200000000000000\<rparr>"
    by code_simp
  show "map (\<lambda>r. cell_at r ''date'')
         (rows (snd (sidebar parse_dated influencers_2 tracking_dated [] [] january))) =
       [Time 1705276800000000000, Time 1717200000000000000, NaN]"
    by code_simp
  show "map (\<lambda>r. in_range january (cell_at r ''date''))
         (rows (snd (sidebar parse_dated influencers_2 tracking_dated [] [] january))) =
       [True, False, False]"
    by code_simp
  show "and_then
         (campaign_summary stable_argsort
            (snd (sidebar parse_dated influencers_2 tracking_dated [] [] january)) influencers_2)
         (\<lambda>s. Inr (map (\<lambda>r. (cell_at r ''influencer_id'', cell_at r ''revenue'')) (rows s))) =
       Inr [(Str ''inf1'', Num 800), (Str ''inf2'', Num 100)]"
    by code_simp
qed

end
